theory Spec2Isabelle
  imports Main "HOL-Library.AList" "HOL-Library.Char_ord" "HOL-Library.List_Lexorder"
begin

section \<open>The element tree\<close>

text \<open>
  \<^verbatim>\<open>ElementType\<close> of \<^verbatim>\<open>FormBuilder.tsx\<close>: a node with nine scalar fields and an optional
  array of child nodes. An optional field that is absent (\<^verbatim>\<open>undefined\<close>) is \<open>None\<close>. The
  \<^verbatim>\<open>type\<close> tag is a string at run time (a new element takes the dragged tool's id as its
  type), so it is a string here.
\<close>

record fields =
  id_el :: string
  type :: string
  label :: string
  description :: "string option"
  placeholder :: "string option"
  required :: "bool option"
  options :: "string list option"
  isMultipleChoice :: "bool option"
  maxOptions :: "int option"

datatype element = Element (fields_of: fields) (children: "element list option")

abbreviation eid :: "element \<Rightarrow> string" where
  "eid e \<equiv> id_el (fields_of e)"

abbreviation etype :: "element \<Rightarrow> string" where
  "etype e \<equiv> type (fields_of e)"

text \<open>All nodes of a tree in depth-first order, and their ids.\<close>

fun allElements :: "element list \<Rightarrow> element list" where
  "allElements [] = []"
| "allElements (Element f ch # rest) =
     Element f ch # (case ch of Some cs \<Rightarrow> allElements cs | None \<Rightarrow> []) @ allElements rest"

definition allIds :: "element list \<Rightarrow> string list" where
  "allIds els = map eid (allElements els)"

subsection \<open>Property patches\<close>

text \<open>
  \<^verbatim>\<open>Partial<ElementType>\<close>: every field may be missing from the patch (\<open>None\<close>) or carry a
  new value. \<^verbatim>\<open>{ ...element, ...updates }\<close> takes each field from the patch when it is there.
\<close>

record updates =
  u_id :: "string option"
  u_type :: "string option"
  u_label :: "string option"
  u_description :: "string option option"
  u_placeholder :: "string option option"
  u_required :: "bool option option"
  u_options :: "string list option option"
  u_isMultipleChoice :: "bool option option"
  u_maxOptions :: "int option option"
  u_children :: "element list option option"

definition no_updates :: updates where
  "no_updates = \<lparr>u_id = None, u_type = None, u_label = None, u_description = None,
     u_placeholder = None, u_required = None, u_options = None, u_isMultipleChoice = None,
     u_maxOptions = None, u_children = None\<rparr>"

definition pick :: "'a option \<Rightarrow> 'a \<Rightarrow> 'a" where
  "pick u old = (case u of Some v \<Rightarrow> v | None \<Rightarrow> old)"

definition spread :: "element \<Rightarrow> updates \<Rightarrow> element" where
  "spread e u =
     Element
       \<lparr>id_el = pick (u_id u) (eid e),
        type = pick (u_type u) (etype e),
        label = pick (u_label u) (label (fields_of e)),
        description = pick (u_description u) (description (fields_of e)),
        placeholder = pick (u_placeholder u) (placeholder (fields_of e)),
        required = pick (u_required u) (required (fields_of e)),
        options = pick (u_options u) (options (fields_of e)),
        isMultipleChoice = pick (u_isMultipleChoice u) (isMultipleChoice (fields_of e)),
        maxOptions = pick (u_maxOptions u) (maxOptions (fields_of e))\<rparr>
       (pick (u_children u) (children e))"

subsection \<open>update and remove\<close>

text \<open>
  \<^verbatim>\<open>handleElementUpdate\<close>: \<^verbatim>\<open>updateElement\<close> maps over a sequence; the element with the
  given id is replaced by its patched copy (its children are not visited), every other
  element that has a children array gets the array rebuilt recursively.
\<close>

fun updateElement :: "string \<Rightarrow> updates \<Rightarrow> element list \<Rightarrow> element list" where
  "updateElement i u [] = []"
| "updateElement i u (Element f ch # rest) =
     (if id_el f = i then spread (Element f ch) u
      else (case ch of
              Some cs \<Rightarrow> Element f (Some (updateElement i u cs))
            | None \<Rightarrow> Element f ch))
     # updateElement i u rest"

definition handleElementUpdate :: "element list \<Rightarrow> string \<Rightarrow> updates \<Rightarrow> element list" where
  "handleElementUpdate elements i u = updateElement i u elements"

text \<open>
  \<^verbatim>\<open>handleElementRemove\<close>: \<^verbatim>\<open>removeElement\<close> filters a sequence; an element with the given
  id is dropped, every other element is kept with its children array (when it has one)
  replaced by the filtered array.
\<close>

fun removeElement :: "string \<Rightarrow> element list \<Rightarrow> element list" where
  "removeElement i [] = []"
| "removeElement i (Element f ch # rest) =
     (if id_el f = i then removeElement i rest
      else Element f (case ch of Some cs \<Rightarrow> Some (removeElement i cs) | None \<Rightarrow> None)
           # removeElement i rest)"

definition handleElementRemove :: "element list \<Rightarrow> string \<Rightarrow> element list" where
  "handleElementRemove elements i = removeElement i elements"


section \<open>Option editing (\<^verbatim>\<open>FormElement\<close>)\<close>

text \<open>Decimal rendering of a number inside a template literal.\<close>

fun show_nat :: "nat \<Rightarrow> string" where
  "show_nat n =
     (if n < 10 then [''0123456789'' ! n]
      else show_nat (n div 10) @ [''0123456789'' ! (n mod 10)])"

text \<open>
  The handlers of \<^verbatim>\<open>FormElement\<close> close over one element and report an edit by calling
  \<^verbatim>\<open>onUpdate(element.id, patch)\<close>; an early \<^verbatim>\<open>return\<close> makes no call. The model returns
  the call that is made, if any.
\<close>

definition addOption :: "element \<Rightarrow> (string \<times> updates) option" where
  "addOption element =
     (case options (fields_of element) of
        None \<Rightarrow> None
      | Some opts \<Rightarrow>
          (case maxOptions (fields_of element) of
             None \<Rightarrow>
               Some (eid element,
                 no_updates\<lparr>u_options := Some (Some (opts @ [''Option '' @ show_nat (length opts + 1)]))\<rparr>)
           | Some m \<Rightarrow>
               if m \<noteq> 0 \<and> int (length opts) \<ge> m then None
               else Some (eid element,
                 no_updates\<lparr>u_options := Some (Some (opts @ [''Option '' @ show_nat (length opts + 1)]))\<rparr>)))"

text \<open>\<^verbatim>\<open>options.filter((_, i) => i !== index)\<close>\<close>

definition filter_index :: "'a list \<Rightarrow> int \<Rightarrow> 'a list" where
  "filter_index xs index = map snd (filter (\<lambda>(i, x). int i \<noteq> index) (enumerate 0 xs))"

definition removeOption :: "element \<Rightarrow> int \<Rightarrow> (string \<times> updates) option" where
  "removeOption element index =
     (case options (fields_of element) of
        None \<Rightarrow> None
      | Some opts \<Rightarrow>
          if length opts \<le> 2 then None
          else Some (eid element, no_updates\<lparr>u_options := Some (Some (filter_index opts index))\<rparr>))"

text \<open>
  \<^verbatim>\<open>onUpdate\<close> is \<^verbatim>\<open>handleElementUpdate\<close>. The element as it stands after a handler has
  run: unchanged when no call was made, otherwise what \<^verbatim>\<open>handleElementUpdate\<close> makes of it.
\<close>

definition after_call :: "element \<Rightarrow> (string \<times> updates) option \<Rightarrow> element" where
  "after_call element call =
     (case call of
        None \<Rightarrow> element
      | Some (i, u) \<Rightarrow> hd (handleElementUpdate [element] i u))"

section \<open>Drag and drop (\<^verbatim>\<open>handleDragEnd\<close>)\<close>

text \<open>
  The source compares arrays and objects by reference (\<^verbatim>\<open>activeParent === elements\<close>,
  \<^verbatim>\<open>activeParent === overParent\<close>, \<^verbatim>\<open>element.children === activeParent\<close>,
  \<^verbatim>\<open>activeParent.indexOf(activeElement)\<close>). In a state that is a tree (no array and no
  element object sits at two places), two arrays are the same object exactly when they sit
  at the same place, so the identity of a sequence is modelled by its place: the list of
  child indices that leads from the root sequence to the section owning it, \<open>[]\<close> for the
  root sequence itself. The identity of an element within its parent is its index there.
\<close>

record found =
  element :: element
  parent :: "element list"
  parent_at :: "nat list"
  index_at :: nat

text \<open>
  \<^verbatim>\<open>findElementAndParent\<close>: the loop over \<^verbatim>\<open>elements\<close>, with the place \<open>pos\<close> of the
  array, the whole array (returned as \<^verbatim>\<open>parent\<close>) and the part of it still to visit.
  \<open>None\<close> stands for \<^verbatim>\<open>{ element: null, parent: null }\<close>.
\<close>

fun findElementAndParentAt ::
  "nat list \<Rightarrow> element list \<Rightarrow> element list \<Rightarrow> string \<Rightarrow> found option" where
  "findElementAndParentAt pos elements [] i = None"
| "findElementAndParentAt pos elements (Element f ch # rest) i =
     (if id_el f = i then
        Some \<lparr>element = Element f ch, parent = elements, parent_at = pos,
              index_at = length elements - Suc (length rest)\<rparr>
      else
        (case ch of
           Some cs \<Rightarrow>
             (case findElementAndParentAt (pos @ [length elements - Suc (length rest)]) cs cs i of
                Some r \<Rightarrow> Some r
              | None \<Rightarrow> findElementAndParentAt pos elements rest i)
         | None \<Rightarrow> findElementAndParentAt pos elements rest i))"

definition findElementAndParent :: "element list \<Rightarrow> string \<Rightarrow> found option" where
  "findElementAndParent elements i = findElementAndParentAt [] elements elements i"

fun findSection :: "element list \<Rightarrow> string \<Rightarrow> element option" where
  "findSection [] overId = None"
| "findSection (Element f ch # rest) overId =
     (if id_el f = overId \<and> type f = ''section'' then Some (Element f ch)
      else
        (case ch of
           Some cs \<Rightarrow>
             (case findSection cs overId of
                Some s \<Rightarrow> Some s
              | None \<Rightarrow> findSection rest overId)
         | None \<Rightarrow> findSection rest overId))"

text \<open>\<^verbatim>\<open>element.children || []\<close>\<close>

definition children_or_empty :: "element \<Rightarrow> element list" where
  "children_or_empty e = (case children e of Some cs \<Rightarrow> cs | None \<Rightarrow> [])"

text \<open>
  The dropped tool's new element; \<open>now\<close> is the value of \<^verbatim>\<open>Date.now()\<close>.
\<close>

definition newElement :: "string \<Rightarrow> nat \<Rightarrow> element" where
  "newElement activeId now =
     Element
       \<lparr>id_el = activeId @ ''-'' @ show_nat now,
        type = activeId,
        label = ''New '' @ activeId,
        description = (if activeId = ''title'' \<or> activeId = ''section'' then Some [] else None),
        placeholder = Some [],
        required = Some False,
        options = (if activeId = ''select'' then Some [''Option 1'', ''Option 2''] else None),
        isMultipleChoice = (if activeId = ''select'' then Some False else None),
        maxOptions = (if activeId = ''select'' then Some 4 else None)\<rparr>
       (if activeId = ''section'' then Some [] else None)"

text \<open>
  The first \<^verbatim>\<open>updateElements\<close> (re-parenting): the element whose id is the target
  section's gets the dragged element appended to its children; other elements with
  children are rebuilt recursively.
\<close>

fun updateElements_append :: "string \<Rightarrow> element \<Rightarrow> element list \<Rightarrow> element list" where
  "updateElements_append targetId activeElement [] = []"
| "updateElements_append targetId activeElement (Element f ch # rest) =
     (if id_el f = targetId then
        Element f (Some (children_or_empty (Element f ch) @ [activeElement]))
      else
        (case ch of
           Some cs \<Rightarrow> Element f (Some (updateElements_append targetId activeElement cs))
         | None \<Rightarrow> Element f ch))
     # updateElements_append targetId activeElement rest"

text \<open>
  Modelled from the spec: \<^verbatim>\<open>arrayMove\<close> of the library \<^verbatim>\<open>@dnd-kit/sortable\<close> is not part
  of the repository. "Array move semantics: remove from source index, insert at target
  index, preserving relative order of all other siblings." Both indices come from
  \<^verbatim>\<open>indexOf\<close> on elements found in the array, so they are in range where it is called.
\<close>

definition arrayMove :: "'a list \<Rightarrow> nat \<Rightarrow> nat \<Rightarrow> 'a list" where
  "arrayMove array from to =
     (if from < length array then
        (let x = array ! from;
             without = take from array @ drop (Suc from) array
         in take to without @ [x] @ drop to without)
      else array)"

text \<open>
  The second \<^verbatim>\<open>updateElements\<close> (reordering inside a section): the element whose children
  array is \<^verbatim>\<open>activeParent\<close> gets it reordered; \<open>pos\<close> and \<open>k\<close> track the place of the
  array being mapped and the index of its next element.
\<close>

fun updateElements_move ::
  "nat list \<Rightarrow> nat \<Rightarrow> nat \<Rightarrow> nat list \<Rightarrow> nat \<Rightarrow> element list \<Rightarrow> element list" where
  "updateElements_move activeParentAt activeIndex overIndex pos k [] = []"
| "updateElements_move activeParentAt activeIndex overIndex pos k (Element f ch # rest) =
     (case ch of
        Some cs \<Rightarrow>
          if pos @ [k] = activeParentAt then
            Element f (Some (arrayMove cs activeIndex overIndex))
          else
            Element f (Some (updateElements_move activeParentAt activeIndex overIndex (pos @ [k]) 0 cs))
      | None \<Rightarrow> Element f ch)
     # updateElements_move activeParentAt activeIndex overIndex pos (Suc k) rest"

text \<open>
  \<^verbatim>\<open>handleDragEnd\<close>, as a function from the current \<^verbatim>\<open>elements\<close>, the ids of the dragged
  handle and of the drop target (\<open>None\<close> when \<^verbatim>\<open>over\<close> is null) and the clock to the next
  value of \<^verbatim>\<open>elements\<close>. Where the source never calls \<^verbatim>\<open>setElements\<close> the state stays as
  it is. A lookup that finds an element finds its parent with it, so the source's tests
  \<^verbatim>\<open>if (activeParent)\<close> and \<^verbatim>\<open>activeParent && overParent\<close> are the tests that the
  lookups succeeded.
\<close>

definition handleDragEnd ::
  "element list \<Rightarrow> string \<Rightarrow> string option \<Rightarrow> nat \<Rightarrow> element list" where
  "handleDragEnd elements activeId over now =
     (case over of
        None \<Rightarrow> elements
      | Some overId \<Rightarrow>
          (let targetSection = findSection elements overId;
               active = findElementAndParent elements activeId;
               overFound = findElementAndParent elements overId
           in
             if active = None \<and> targetSection = None then
               (case overFound of
                  Some ov \<Rightarrow>
                    if etype (element ov) = ''section'' then
                      map (\<lambda>e. if eid e = eid (element ov)
                                then Element (fields_of e)
                                       (Some (children_or_empty e @ [newElement activeId now]))
                                else e) elements
                    else elements @ [newElement activeId now]
                | None \<Rightarrow> elements @ [newElement activeId now])
             else
               (case (active, overFound) of
                  (Some a, Some ov) \<Rightarrow>
                    (case targetSection of
                       Some target \<Rightarrow>
                         if eid target = overId then
                           (if parent_at a = [] then
                              updateElements_append (eid target) (element a)
                                (filter (\<lambda>e. eid e \<noteq> activeId) (parent a))
                            else
                              updateElements_append (eid target) (element a) elements)
                         else if parent_at a = parent_at ov then
                           (if parent_at a = [] then
                              arrayMove elements (index_at a) (index_at ov)
                            else
                              updateElements_move (parent_at a) (index_at a) (index_at ov) [] 0 elements)
                         else elements
                     | None \<Rightarrow>
                         if parent_at a = parent_at ov then
                           (if parent_at a = [] then
                              arrayMove elements (index_at a) (index_at ov)
                            else
                              updateElements_move (parent_at a) (index_at a) (index_at ov) [] 0 elements)
                         else elements)
                | _ \<Rightarrow> elements)))"


section \<open>Forward conversion (\<^verbatim>\<open>schemaConverter.ts\<close>)\<close>

text \<open>
  JavaScript values as they occur in a generated schema. An object is the list of its
  members in insertion order; a member may hold \<^verbatim>\<open>undefined\<close>. Assigning to a key is
  \<^const>\<open>AList.update\<close>: the value is replaced where the key exists, appended otherwise.
\<close>

datatype json =
    JUndefined
  | JBool bool
  | JNum int
  | JStr string
  | JArr "json list"
  | JObj "(string \<times> json) list"

text \<open>The interface \<^verbatim>\<open>JsonSchema\<close>, with the three members the converter sets.\<close>

record JsonSchema =
  js_type :: string
  js_properties :: "(string \<times> json) list"
  js_required :: "string list option"

text \<open>A \<^verbatim>\<open>JsonSchema\<close> object seen as a plain value.\<close>

definition to_json :: "JsonSchema \<Rightarrow> json" where
  "to_json s =
     JObj [(''type'', JStr (js_type s)),
           (''properties'', JObj (js_properties s)),
           (''required'', (case js_required s of
                             Some r \<Rightarrow> JArr (map JStr r)
                           | None \<Rightarrow> JUndefined))]"

definition opt_str :: "string option \<Rightarrow> json" where
  "opt_str v = (case v of Some s \<Rightarrow> JStr s | None \<Rightarrow> JUndefined)"

text \<open>Truthiness of an optional string: present and not empty.\<close>

definition truthy :: "string option \<Rightarrow> bool" where
  "truthy v = (case v of Some s \<Rightarrow> s \<noteq> [] | None \<Rightarrow> False)"

text \<open>\<^verbatim>\<open>if (element.placeholder) schema.examples = [element.placeholder]\<close>\<close>

definition with_examples :: "fields \<Rightarrow> (string \<times> json) list \<Rightarrow> (string \<times> json) list" where
  "with_examples f schema =
     (if truthy (placeholder f)
      then AList.update ''examples'' (JArr [opt_str (placeholder f)]) schema
      else schema)"

text \<open>\<^verbatim>\<open>element.options || []\<close>\<close>

definition options_or_empty :: "fields \<Rightarrow> json" where
  "options_or_empty f =
     JArr (map JStr (case options f of Some opts \<Rightarrow> opts | None \<Rightarrow> []))"

text \<open>The \<^verbatim>\<open>else\<close> branch of the loop body: the schema of an element that is not a section with children.\<close>

definition field_schema :: "fields \<Rightarrow> (string \<times> json) list" where
  "field_schema f =
     (let schema = [(''title'', JStr (label f)), (''description'', opt_str (description f))]
      in
        if type f = ''text'' then
          with_examples f (AList.update ''type'' (JStr ''string'') schema)
        else if type f = ''email'' then
          with_examples f
            (AList.update ''format'' (JStr ''email'')
              (AList.update ''type'' (JStr ''string'') schema))
        else if type f = ''number'' then
          with_examples f (AList.update ''type'' (JStr ''number'') schema)
        else if type f = ''checkbox'' then
          AList.update ''type'' (JStr ''boolean'') schema
        else if type f = ''select'' then
          (if isMultipleChoice f = Some True then
             (let withItems =
                    AList.update ''items''
                      (JObj [(''type'', JStr ''string''), (''enum'', options_or_empty f)])
                      (AList.update ''type'' (JStr ''array'') schema)
              in (case maxOptions f of
                    Some m \<Rightarrow>
                      if m \<noteq> 0 then AList.update ''maxItems'' (JNum m) withItems
                      else withItems
                  | None \<Rightarrow> withItems))
           else
             AList.update ''enum'' (options_or_empty f)
               (AList.update ''type'' (JStr ''string'') schema))
        else if type f = ''title'' then
          AList.update ''description'' (opt_str (description f))
            (AList.update ''readOnly'' (JBool True)
              (AList.update ''type'' (JStr ''string'') schema))
        else
          AList.update ''type'' (JStr ''string'') schema)"

text \<open>\<^verbatim>\<open>if (element.required) required.push(element.id)\<close>\<close>

definition push_required :: "fields \<Rightarrow> string list \<Rightarrow> string list" where
  "push_required f required_ids =
     (if required f = Some True then required_ids @ [id_el f] else required_ids)"

text \<open>
  \<^verbatim>\<open>elementsToJsonSchema\<close> and the body of its \<^verbatim>\<open>forEach\<close>, which threads the two
  accumulators \<^verbatim>\<open>properties\<close> and \<^verbatim>\<open>required\<close> and calls the converter again on the
  children of a section.
\<close>

function elementsToJsonSchema :: "element list \<Rightarrow> JsonSchema"
  and forEach_element ::
    "element list \<Rightarrow> (string \<times> json) list \<times> string list \<Rightarrow> (string \<times> json) list \<times> string list"
where
  "elementsToJsonSchema elements =
     (if elements = [] then
        \<lparr>js_type = ''object'', js_properties = [], js_required = None\<rparr>
      else
        (case forEach_element elements ([], []) of
           (properties, required_ids) \<Rightarrow>
             \<lparr>js_type = ''object'', js_properties = properties,
              js_required = (if length required_ids > 0 then Some required_ids else None)\<rparr>))"
| "forEach_element [] acc = acc"
| "forEach_element (Element f ch # rest) (properties, required_ids) =
     forEach_element rest
       (case ch of
          Some cs \<Rightarrow>
            if type f = ''section'' then
              (let sub = elementsToJsonSchema cs
               in (AList.update (id_el f)
                     (JObj ([(''type'', JStr ''object''),
                             (''title'', JStr (label f)),
                             (''description'', opt_str (description f)),
                             (''properties'', JObj (js_properties sub))]
                            @ (case js_required sub of
                                 Some childRequired \<Rightarrow>
                                   if length childRequired > 0
                                   then [(''required'', JArr (map JStr childRequired))]
                                   else []
                               | None \<Rightarrow> [])))
                     properties,
                   push_required f required_ids))
            else
              (AList.update (id_el f) (JObj (field_schema f)) properties,
               push_required f required_ids)
        | None \<Rightarrow>
            (AList.update (id_el f) (JObj (field_schema f)) properties,
             push_required f required_ids))"
  by pat_completeness auto
termination
  by (relation "measure (\<lambda>x. case x of
                    Inl elements \<Rightarrow> 2 * size_list size elements + 1
                  | Inr (elements, acc) \<Rightarrow> 2 * size_list size elements)")
     auto

text \<open>
  The schema built in \<^verbatim>\<open>FormBuilder\<close>: the constant \<^verbatim>\<open>jsonSchema\<close> that is displayed, and
  the constant \<^verbatim>\<open>schema\<close> of \<^verbatim>\<open>handleSubmit\<close> that is compiled by the validator. Both are
  the same expression.
\<close>

definition jsonSchema :: "element list \<Rightarrow> json" where
  "jsonSchema elements =
     JObj [(''type'', JStr ''object''),
           (''properties'', to_json (elementsToJsonSchema elements))]"

definition handleSubmit_schema :: "element list \<Rightarrow> json" where
  "handleSubmit_schema elements =
     JObj [(''type'', JStr ''object''),
           (''properties'', to_json (elementsToJsonSchema elements))]"

text \<open>
  A value as a JSON document, which is how a schema is displayed
  (\<^verbatim>\<open>JSON.stringify\<close>) and read by a validator: members holding \<^verbatim>\<open>undefined\<close> are not
  there, and the order of members is immaterial (they are sorted by key here).
\<close>

fun as_json :: "json \<Rightarrow> json" where
  "as_json (JObj members) =
     JObj (sort_key fst
            (map (\<lambda>(k, v). (k, as_json v))
              (filter (\<lambda>(k, v). v \<noteq> JUndefined) members)))"
| "as_json (JArr vs) = JArr (map as_json vs)"
| "as_json v = v"


section \<open>Reverse conversion (\<^verbatim>\<open>FormPreview.tsx\<close>)\<close>

text \<open>
  The schema handed to \<^verbatim>\<open>convertJsonSchemaToElements\<close> has type \<^verbatim>\<open>any\<close>; it is read as a
  JSON Schema, so each keyword the function looks at is modelled at its JSON Schema type.
  \<^verbatim>\<open>properties\<close> is the list that \<^verbatim>\<open>Object.entries\<close> enumerates.
\<close>

record schema_keywords =
  type_s :: "string option"
  title_s :: "string option"
  description_s :: "string option"
  enum_s :: "string list option"
  format_s :: "string option"
  example_s :: "string option"
  required_s :: "string list option"

datatype schema =
  Schema (keywords_of: schema_keywords) (items_s: "schema option")
    (properties_s: "(string \<times> schema) list option")

record conversion =
  convertedElements :: "element list"
  labels :: "(string \<times> string) list"
  descriptions :: "(string \<times> string) list"

text \<open>\<^verbatim>\<open>a || b\<close> on an optional string.\<close>

definition or_else :: "string option \<Rightarrow> string \<Rightarrow> string" where
  "or_else v d = (case v of Some s \<Rightarrow> if s = [] then d else s | None \<Rightarrow> d)"

text \<open>\<^verbatim>\<open>schema.required && schema.required.includes(key)\<close>\<close>

definition required_includes :: "schema \<Rightarrow> string \<Rightarrow> bool option" where
  "required_includes s key =
     (case required_s (keywords_of s) of
        Some r \<Rightarrow> Some (key \<in> set r)
      | None \<Rightarrow> None)"

text \<open>\<^verbatim>\<open>if (prop.description) descriptions[key] = prop.description\<close>\<close>

definition store_description ::
  "string \<Rightarrow> schema \<Rightarrow> (string \<times> string) list \<Rightarrow> (string \<times> string) list" where
  "store_description key prop ds =
     (case description_s (keywords_of prop) of
        Some d \<Rightarrow> if d \<noteq> [] then AList.update key d ds else ds
      | None \<Rightarrow> ds)"

text \<open>
  The object pushed onto \<^verbatim>\<open>childElements\<close> for one nested property of the property
  \<open>prop\<close> stored under \<open>key\<close>.
\<close>

definition childElement :: "string \<Rightarrow> schema \<Rightarrow> string \<Rightarrow> schema \<Rightarrow> element" where
  "childElement key prop childKey childProp =
     Element
       \<lparr>id_el = key @ ''_'' @ childKey,
        type = (if type_s (keywords_of childProp) = Some ''boolean''
                then ''checkbox'' else ''text''),
        label = or_else (title_s (keywords_of childProp)) childKey,
        description = description_s (keywords_of childProp),
        placeholder = Some (or_else (example_s (keywords_of childProp)) []),
        required = required_includes prop childKey,
        options = None,
        isMultipleChoice = None,
        maxOptions = None\<rparr>
       None"

text \<open>The inner \<^verbatim>\<open>forEach\<close> of the \<^verbatim>\<open>'object'\<close> case, over the nested properties.\<close>

fun forEach_child ::
  "string \<Rightarrow> schema \<Rightarrow> (string \<times> schema) list
     \<Rightarrow> element list \<times> (string \<times> string) list \<times> (string \<times> string) list
     \<Rightarrow> element list \<times> (string \<times> string) list \<times> (string \<times> string) list" where
  "forEach_child key prop [] acc = acc"
| "forEach_child key prop ((childKey, childProp) # rest) (childElements, ls, ds) =
     forEach_child key prop rest
       (childElements @ [childElement key prop childKey childProp],
        AList.update (key @ ''_'' @ childKey)
          (or_else (title_s (keywords_of childProp)) childKey) ls,
        store_description (key @ ''_'' @ childKey) childProp ds)"

text \<open>The body of the outer \<^verbatim>\<open>forEach\<close>: one entry of \<^verbatim>\<open>schema.properties\<close>.\<close>

definition convertProperty :: "schema \<Rightarrow> string \<Rightarrow> schema \<Rightarrow> conversion \<Rightarrow> conversion" where
  "convertProperty s key prop acc =
     (let k = keywords_of prop;
          req = required_includes s key;
          result = convertedElements acc;
          ls = labels acc;
          ds = store_description key prop (descriptions acc);
          lbl = or_else (title_s k) key;
          plain = \<lparr>id_el = key, type = ''text'', label = lbl, description = description_s k,
                   placeholder = None, required = req, options = None,
                   isMultipleChoice = None, maxOptions = None\<rparr>
      in
        if type_s k = Some ''string'' then
          (case enum_s k of
             Some e \<Rightarrow>
               \<lparr>convertedElements = result @
                  [Element (plain\<lparr>type := ''select'', options := Some e,
                                  isMultipleChoice := Some False\<rparr>) None],
                labels = AList.update key lbl ls, descriptions = ds\<rparr>
           | None \<Rightarrow>
               if format_s k = Some ''email'' then
                 \<lparr>convertedElements = result @
                    [Element (plain\<lparr>type := ''email'',
                                    placeholder := Some (or_else (example_s k) [])\<rparr>) None],
                  labels = AList.update key lbl ls, descriptions = ds\<rparr>
               else
                 \<lparr>convertedElements = result @
                    [Element (plain\<lparr>type := ''text'',
                                    placeholder := Some (or_else (example_s k) [])\<rparr>) None],
                  labels = AList.update key lbl ls, descriptions = ds\<rparr>)
        else if type_s k = Some ''number'' \<or> type_s k = Some ''integer'' then
          \<lparr>convertedElements = result @
             [Element (plain\<lparr>type := ''number'',
                             placeholder := Some (or_else (example_s k) [])\<rparr>) None],
           labels = AList.update key lbl ls, descriptions = ds\<rparr>
        else if type_s k = Some ''boolean'' then
          \<lparr>convertedElements = result @ [Element (plain\<lparr>type := ''checkbox''\<rparr>) None],
           labels = AList.update key lbl ls, descriptions = ds\<rparr>
        else if type_s k = Some ''array'' then
          (case items_s prop of
             Some items \<Rightarrow>
               (case enum_s (keywords_of items) of
                  Some e \<Rightarrow>
                    \<lparr>convertedElements = result @
                       [Element (plain\<lparr>type := ''select'', options := Some e,
                                       isMultipleChoice := Some True\<rparr>) None],
                     labels = AList.update key lbl ls, descriptions = ds\<rparr>
                | None \<Rightarrow> \<lparr>convertedElements = result, labels = ls, descriptions = ds\<rparr>)
           | None \<Rightarrow> \<lparr>convertedElements = result, labels = ls, descriptions = ds\<rparr>)
        else if type_s k = Some ''object'' then
          (case forEach_child key prop
                  (case properties_s prop of Some ps \<Rightarrow> ps | None \<Rightarrow> []) ([], ls, ds) of
             (childElements, ls', ds') \<Rightarrow>
               \<lparr>convertedElements = result @
                  [Element (plain\<lparr>type := ''section''\<rparr>\<lparr>required := None\<rparr>)
                     (Some childElements)],
                labels = ls', descriptions = ds'\<rparr>)
        else
          \<lparr>convertedElements = result, labels = ls, descriptions = ds\<rparr>)"

fun forEach_property :: "schema \<Rightarrow> (string \<times> schema) list \<Rightarrow> conversion \<Rightarrow> conversion" where
  "forEach_property s [] acc = acc"
| "forEach_property s ((key, prop) # rest) acc =
     forEach_property s rest (convertProperty s key prop acc)"

text \<open>
  \<^verbatim>\<open>convertJsonSchemaToElements\<close>: the optional leading title element, then the loop over
  the properties.
\<close>

definition convertJsonSchemaToElements :: "schema \<Rightarrow> conversion" where
  "convertJsonSchemaToElements s =
     (let start =
            (if truthy (title_s (keywords_of s)) then
               \<lparr>convertedElements =
                  [Element
                     \<lparr>id_el = ''title'', type = ''title'',
                      label = or_else (title_s (keywords_of s)) [],
                      description = Some (or_else (description_s (keywords_of s)) []),
                      placeholder = None, required = None, options = None,
                      isMultipleChoice = None, maxOptions = None\<rparr>
                     None],
                labels = [],
                descriptions =
                  (if truthy (description_s (keywords_of s))
                   then [(''title'', or_else (description_s (keywords_of s)) [])]
                   else [])\<rparr>
             else \<lparr>convertedElements = [], labels = [], descriptions = []\<rparr>)
      in (case properties_s s of
            Some ps \<Rightarrow> forEach_property s ps start
          | None \<Rightarrow> start))"


section \<open>Concrete trees and schemas\<close>

definition bare :: "string \<Rightarrow> string \<Rightarrow> string \<Rightarrow> fields" where
  "bare i t l =
     \<lparr>id_el = i, type = t, label = l, description = None, placeholder = None,
      required = None, options = None, isMultipleChoice = None, maxOptions = None\<rparr>"

definition no_keywords :: schema_keywords where
  "no_keywords =
     \<lparr>type_s = None, title_s = None, description_s = None, enum_s = None,
      format_s = None, example_s = None, required_s = None\<rparr>"

text \<open>A text field inside one section, and a second, empty section.\<close>

definition field_a :: element where
  "field_a = Element (bare ''a'' ''text'' ''A'') None"

definition two_sections :: "element list" where
  "two_sections =
     [Element (bare ''s1'' ''section'' ''S1'') (Some [field_a]),
      Element (bare ''s2'' ''section'' ''S2'') (Some [])]"

text \<open>A text field inside a section, and a text field beside the section.\<close>

definition field_b :: element where
  "field_b = Element (bare ''b'' ''text'' ''B'') None"

definition section_and_field :: "element list" where
  "section_and_field = [Element (bare ''s1'' ''section'' ''S1'') (Some [field_a]), field_b]"

text \<open>The tree and the schema of the forward scenario.\<close>

definition name_and_address :: "element list" where
  "name_and_address =
     [Element ((bare ''a'' ''text'' ''Name'')\<lparr>required := Some True\<rparr>) None,
      Element (bare ''s'' ''section'' ''Address'')
        (Some [Element (bare ''s_line1'' ''text'' ''Line 1'') None])]"

definition name_and_address_schema :: json where
  "name_and_address_schema =
     JObj [(''type'', JStr ''object''),
           (''properties'',
              JObj [(''a'', JObj [(''type'', JStr ''string''), (''title'', JStr ''Name'')]),
                    (''s'', JObj [(''type'', JStr ''object''),
                                  (''title'', JStr ''Address''),
                                  (''properties'',
                                     JObj [(''s_line1'',
                                            JObj [(''type'', JStr ''string''),
                                                  (''title'', JStr ''Line 1'')])])])]),
           (''required'', JArr [JStr ''a''])]"

text \<open>A single text field and the schema that describes it.\<close>

definition one_field :: "element list" where
  "one_field = [Element (bare ''a'' ''text'' ''Name'') None]"

definition one_field_schema :: json where
  "one_field_schema =
     JObj [(''type'', JStr ''object''),
           (''properties'',
              JObj [(''a'', JObj [(''type'', JStr ''string''), (''title'', JStr ''Name'')])])]"

text \<open>A select element with three options and a cap of four.\<close>

definition three_options :: element where
  "three_options =
     Element ((bare ''q'' ''select'' ''Q'')
                \<lparr>options := Some [''A'', ''B'', ''C''], isMultipleChoice := Some False,
                 maxOptions := Some 4\<rparr>) None"

text \<open>The schemas of the reverse scenarios.\<close>

definition survey_schema :: schema where
  "survey_schema =
     Schema (no_keywords\<lparr>type_s := Some ''object'', title_s := Some ''Survey''\<rparr>) None
       (Some [(''color'',
               Schema (no_keywords\<lparr>type_s := Some ''string'',
                                    enum_s := Some [''Red'', ''Blue'']\<rparr>) None None)])"

definition count_schema :: schema where
  "count_schema =
     Schema (no_keywords\<lparr>type_s := Some ''object''\<rparr>) None
       (Some [(''n'', Schema (no_keywords\<lparr>type_s := Some ''number''\<rparr>) None None)])"

definition nested_count_schema :: schema where
  "nested_count_schema =
     Schema (no_keywords\<lparr>type_s := Some ''object''\<rparr>) None
       (Some [(''addr'', count_schema)])"

definition titled_schema :: schema where
  "titled_schema =
     Schema (no_keywords\<lparr>type_s := Some ''object'', title_s := Some ''Survey''\<rparr>) None
       (Some [(''title'', Schema (no_keywords\<lparr>type_s := Some ''string''\<rparr>) None None)])"


section \<open>Properties of the tree operations\<close>

subsection \<open>Absent ids\<close>

lemma removeElement_absent: "i \<notin> set (allIds els) \<Longrightarrow> removeElement i els = els"
  by (induction i els rule: removeElement.induct) (auto simp: allIds_def split: option.splits)

lemma updateElement_absent: "i \<notin> set (allIds els) \<Longrightarrow> updateElement i u els = els"
  by (induction i u els rule: updateElement.induct) (auto simp: allIds_def split: option.splits)

text \<open>
  C7. When no element anywhere in the tree has the id \<open>x\<close>, removing \<open>x\<close> and updating
  \<open>x\<close> with any patch both give back a tree equal to the one they were given; neither
  can fail, since both functions are total.
\<close>

theorem absent_id_is_noop:
  assumes "x \<notin> set (allIds T)"
  shows "handleElementRemove T x = T \<and> handleElementUpdate T x u = T"
  using assms
  by (simp add: handleElementRemove_def handleElementUpdate_def
        removeElement_absent updateElement_absent)

theorem absent_id_is_noop_witness:
  "''x'' \<notin> set (allIds name_and_address)
   \<and> handleElementRemove name_and_address ''x'' = name_and_address
   \<and> handleElementUpdate name_and_address ''x'' (no_updates\<lparr>u_label := Some ''L''\<rparr>)
       = name_and_address"
proof -
  have absent: "''x'' \<notin> set (allIds name_and_address)"
    by (simp add: allIds_def name_and_address_def bare_def)
  from absent_id_is_noop [OF absent, of "no_updates\<lparr>u_label := Some ''L''\<rparr>"] absent
  show ?thesis by simp
qed

subsection \<open>Option lists\<close>

lemma filter_enumerate_below:
  "index < int n \<Longrightarrow> filter (\<lambda>(i, x). int i \<noteq> index) (enumerate n xs) = enumerate n xs"
  by (induction xs arbitrary: n) auto

lemma length_filter_enumerate:
  "length xs \<le> Suc (length (filter (\<lambda>(i, x). int i \<noteq> index) (enumerate n xs)))"
proof (induction xs arbitrary: n)
  case Nil
  then show ?case by simp
next
  case (Cons x xs)
  show ?case
  proof (cases "int n = index")
    case True
    then have "index < int (Suc n)" by simp
    then show ?thesis using True by (simp add: filter_enumerate_below)
  next
    case False
    then show ?thesis using Cons.IH [of "Suc n"] by simp
  qed
qed

lemma length_filter_index: "length xs \<le> Suc (length (filter_index xs index))"
  using length_filter_enumerate [of xs index 0] by (simp add: filter_index_def)

lemma spread_options:
  "options (fields_of (spread e (no_updates\<lparr>u_options := Some v\<rparr>))) = v"
  by (simp add: spread_def no_updates_def pick_def)

lemma after_call_None: "after_call e None = e"
  by (simp add: after_call_def)

lemma after_call_options:
  "options (fields_of (after_call e (Some (eid e, no_updates\<lparr>u_options := Some v\<rparr>)))) = v"
  by (cases e) (simp add: after_call_def handleElementUpdate_def spread_options)

text \<open>
  C8. For an element whose options list has at least two entries (the floor the data model
  keeps), the options list after \<^verbatim>\<open>removeOption\<close> at any index still has at least two
  entries; and when the list had exactly two entries it is unchanged.
\<close>

theorem removeOption_floor:
  assumes "options (fields_of E) = Some opts" and "2 \<le> length opts"
  shows "\<exists>opts'. options (fields_of (after_call E (removeOption E index))) = Some opts'
           \<and> 2 \<le> length opts' \<and> (length opts = 2 \<longrightarrow> opts' = opts)"
proof (cases "length opts \<le> 2")
  case True
  then have "removeOption E index = None" using assms by (simp add: removeOption_def)
  then show ?thesis using assms by (simp add: after_call_None)
next
  case False
  then have call: "removeOption E index =
      Some (eid E, no_updates\<lparr>u_options := Some (Some (filter_index opts index))\<rparr>)"
    using assms by (simp add: removeOption_def)
  have "2 \<le> length (filter_index opts index)"
    using length_filter_index [of opts index] False by simp
  then show ?thesis using False by (simp add: call after_call_options)
qed

theorem removeOption_floor_witness:
  "options (fields_of three_options) = Some [''A'', ''B'', ''C'']
   \<and> 2 \<le> length [''A'', ''B'', ''C'']
   \<and> options (fields_of (after_call three_options (removeOption three_options 1)))
       = Some [''A'', ''C'']
   \<and> (\<exists>opts'. options (fields_of (after_call three_options (removeOption three_options 1)))
                 = Some opts' \<and> 2 \<le> length opts')"
proof -
  have opts: "options (fields_of three_options) = Some [''A'', ''B'', ''C'']"
    by (simp add: three_options_def bare_def)
  have len: "2 \<le> length [''A'', ''B'', ''C'']" by simp
  have run: "options (fields_of (after_call three_options (removeOption three_options 1)))
               = Some [''A'', ''C'']"
    by (simp add: three_options_def bare_def removeOption_def filter_index_def after_call_def
          handleElementUpdate_def spread_def no_updates_def pick_def enumerate_eq_zip upt_rec)
  from removeOption_floor [OF opts len, of 1] opts run show ?thesis by auto
qed

text \<open>
  C9. For an element with an options list and \<^verbatim>\<open>maxOptions\<close> set to \<open>M\<close> (any value the
  source takes as set, that is non-zero; the data model has \<open>M \<ge> 2\<close>): when the list
  already has \<open>M\<close> entries or more, \<^verbatim>\<open>addOption\<close> makes no call and the element stays as it
  is; otherwise exactly one option is appended; and the only list \<^verbatim>\<open>addOption\<close> can leave
  behind with more than \<open>M\<close> entries is the one it was given, untouched.
\<close>

theorem addOption_cap:
  assumes "options (fields_of E) = Some opts"
    and "maxOptions (fields_of E) = Some M" and "M \<noteq> 0"
  shows "(M \<le> int (length opts) \<longrightarrow>
            addOption E = None \<and> after_call E (addOption E) = E)
       \<and> (int (length opts) < M \<longrightarrow>
            options (fields_of (after_call E (addOption E)))
              = Some (opts @ [''Option '' @ show_nat (length opts + 1)]))
       \<and> (\<forall>opts'. options (fields_of (after_call E (addOption E))) = Some opts'
            \<longrightarrow> int (length opts') \<le> M \<or> opts' = opts)"
  using assms
  by (auto simp: addOption_def after_call_None after_call_options)

theorem addOption_cap_witness:
  "options (fields_of three_options) = Some [''A'', ''B'', ''C'']
   \<and> maxOptions (fields_of three_options) = Some 4 \<and> (4 :: int) \<noteq> 0
   \<and> int (length [''A'', ''B'', ''C'']) < 4
   \<and> options (fields_of (after_call three_options (addOption three_options)))
       = Some [''A'', ''B'', ''C'', ''Option 4'']"
proof -
  have opts: "options (fields_of three_options) = Some [''A'', ''B'', ''C'']"
    by (simp add: three_options_def bare_def)
  have cap: "maxOptions (fields_of three_options) = Some 4"
    by (simp add: three_options_def bare_def)
  have nz: "(4 :: int) \<noteq> 0" by simp
  from addOption_cap [OF opts cap nz] opts cap show ?thesis by simp
qed



subsection \<open>Moving an element\<close>

lemma findElementAndParentAt_member:
  "findElementAndParentAt pos whole els i = Some r \<Longrightarrow>
     element r \<in> set (allElements els) \<and> eid (element r) = i"
  by (induction pos whole els i rule: findElementAndParentAt.induct)
     (auto split: if_splits option.splits)

lemma findSection_member:
  "findSection els i = Some s \<Longrightarrow>
     s \<in> set (allElements els) \<and> eid s = i \<and> etype s = ''section''"
  by (induction els i rule: findSection.induct)
     (auto split: if_splits option.splits)

lemma unique_id_no_section:
  assumes "distinct (allIds els)"
    and "findElementAndParent els i = Some r"
    and "etype (element r) \<noteq> ''section''"
  shows "findSection els i = None"
proof (cases "findSection els i")
  case None
  then show ?thesis .
next
  case (Some s)
  from findSection_member [OF Some]
  have s: "s \<in> set (allElements els)" "eid s = i" "etype s = ''section''" by simp_all
  from findElementAndParentAt_member [of "[]" els els i r] assms(2)
  have r: "element r \<in> set (allElements els)" "eid (element r) = i"
    by (simp_all add: findElementAndParent_def)
  from assms(1) have "inj_on eid (set (allElements els))"
    by (simp add: allIds_def distinct_map)
  with s r have "s = element r" by (auto dest: inj_onD)
  with s assms(3) show ?thesis by simp
qed

text \<open>
  C1. Dragging the text field \<open>a\<close>, which sits in the children of section \<open>s1\<close>, onto the
  empty section \<open>s2\<close>: the lookups find \<open>a\<close> in the sequence at place \<open>[0]\<close> and resolve
  \<open>s2\<close> to a section, and the resulting tree has \<open>a\<close> at the end of the children of
  \<open>s2\<close> but also still in the children of \<open>s1\<close>. The filtered copy of the source
  sequence is only used when the source is the root sequence.
\<close>

theorem reparent_from_section_keeps_source:
  "findElementAndParent two_sections ''a''
     = Some \<lparr>element = field_a, parent = [field_a], parent_at = [0], index_at = 0\<rparr>
   \<and> findSection two_sections ''s2'' = Some (Element (bare ''s2'' ''section'' ''S2'') (Some []))
   \<and> handleDragEnd two_sections ''a'' (Some ''s2'') 0
       = [Element (bare ''s1'' ''section'' ''S1'') (Some [field_a]),
          Element (bare ''s2'' ''section'' ''S2'') (Some [field_a])]"
  by (simp add: handleDragEnd_def findElementAndParent_def two_sections_def field_a_def
        bare_def children_or_empty_def)

text \<open>
  C5. In a tree whose ids are pairwise distinct, let the lookups resolve the dragged id to
  an element \<open>E\<close> and the target id to an element \<open>O\<close>. If the sequences holding \<open>E\<close> and
  \<open>O\<close> are different ones and \<open>O\<close> is not a section, the move leaves the tree exactly as
  it was.
\<close>

theorem move_across_parents_noop:
  assumes "distinct (allIds els)"
    and "findElementAndParent els activeId = Some a"
    and "findElementAndParent els overId = Some ov"
    and "parent_at a \<noteq> parent_at ov"
    and "etype (element ov) \<noteq> ''section''"
  shows "handleDragEnd els activeId (Some overId) now = els"
proof -
  have "findSection els overId = None"
    using unique_id_no_section [OF assms(1) assms(3) assms(5)] .
  then show ?thesis using assms(2-4) by (simp add: handleDragEnd_def)
qed

theorem move_across_parents_noop_witness:
  "distinct (allIds section_and_field)
   \<and> findElementAndParent section_and_field ''a''
       = Some \<lparr>element = field_a, parent = [field_a], parent_at = [0], index_at = 0\<rparr>
   \<and> findElementAndParent section_and_field ''b''
       = Some \<lparr>element = field_b, parent = section_and_field, parent_at = [], index_at = 1\<rparr>
   \<and> etype field_b \<noteq> ''section''
   \<and> handleDragEnd section_and_field ''a'' (Some ''b'') 0 = section_and_field"
proof -
  have d: "distinct (allIds section_and_field)"
    by (simp add: allIds_def section_and_field_def field_a_def field_b_def bare_def)
  have fa: "findElementAndParent section_and_field ''a''
       = Some \<lparr>element = field_a, parent = [field_a], parent_at = [0], index_at = 0\<rparr>"
    by (simp add: findElementAndParent_def section_and_field_def field_a_def field_b_def bare_def)
  have fb: "findElementAndParent section_and_field ''b''
       = Some \<lparr>element = field_b, parent = section_and_field, parent_at = [], index_at = 1\<rparr>"
    by (simp add: findElementAndParent_def section_and_field_def field_a_def field_b_def bare_def)
  have ne: "parent_at \<lparr>element = field_a, parent = [field_a], parent_at = [0], index_at = 0\<rparr>
      \<noteq> parent_at \<lparr>element = field_b, parent = section_and_field, parent_at = [],
            index_at = 1\<rparr>"
    by simp
  have ty: "etype (element \<lparr>element = field_b, parent = section_and_field, parent_at = [],
      index_at = 1\<rparr>) \<noteq> ''section''"
    by (simp add: field_b_def bare_def)
  from move_across_parents_noop [OF d fa fb ne ty, of 0] d fa fb ty
  show ?thesis by simp
qed

section \<open>Properties of the forward conversion\<close>

text \<open>
  C2. For the tree holding the single text field \<open>a\<close> labelled "Name", the converter's
  result is the schema \<open>{type: "object", properties: {a: {type: "string", title: "Name"}}}\<close>,
  but the schema that is displayed and the schema that is compiled on submission both
  carry that whole result one level down, as the value of their own \<open>properties\<close> member,
  and so differ from it.
\<close>

theorem submitted_schema_wraps_converter_result:
  "as_json (to_json (elementsToJsonSchema one_field)) = as_json one_field_schema
   \<and> as_json (jsonSchema one_field)
       = as_json (JObj [(''type'', JStr ''object''), (''properties'', one_field_schema)])
   \<and> as_json (handleSubmit_schema one_field)
       = as_json (JObj [(''type'', JStr ''object''), (''properties'', one_field_schema)])
   \<and> as_json (jsonSchema one_field) \<noteq> as_json (to_json (elementsToJsonSchema one_field))
   \<and> as_json (handleSubmit_schema one_field)
       \<noteq> as_json (to_json (elementsToJsonSchema one_field))"
  by code_simp

text \<open>
  C4. Forward conversion of the two-element tree (required text field \<open>a\<close> "Name", section
  \<open>s\<close> "Address" holding the text field \<open>s_line1\<close> "Line 1") yields, as a JSON document,
  exactly the schema of the scenario: the members \<open>type\<close> and \<open>title\<close> for each field,
  \<open>properties\<close> in addition for the section, \<open>required = ["a"]\<close> at the top, and no other
  member.
\<close>

theorem forward_name_and_address:
  "as_json (to_json (elementsToJsonSchema name_and_address)) = as_json name_and_address_schema"
  by code_simp


section \<open>Properties of the reverse conversion\<close>

lemma convertProperty_appends:
  "\<exists>ys. convertedElements (convertProperty s key pr acc) = convertedElements acc @ ys"
  by (auto simp: convertProperty_def Let_def split: option.splits prod.splits)

lemma forEach_property_appends:
  "\<exists>ys. convertedElements (forEach_property s ps acc) = convertedElements acc @ ys"
proof (induction ps arbitrary: acc)
  case Nil
  then show ?case by simp
next
  case (Cons p ps)
  obtain k q where p: "p = (k, q)" by (cases p)
  obtain ys where step:
    "convertedElements (convertProperty s k q acc) = convertedElements acc @ ys"
    using convertProperty_appends [of s k q acc] by blast
  obtain zs where "convertedElements (forEach_property s ps (convertProperty s k q acc))
      = convertedElements (convertProperty s k q acc) @ zs"
    using Cons.IH [of "convertProperty s k q acc"] by blast
  with step p show ?case by simp
qed

lemma forEach_property_keeps:
  "e \<in> set (convertedElements acc) \<Longrightarrow>
     e \<in> set (convertedElements (forEach_property s ps acc))"
  using forEach_property_appends [of s ps acc] by auto

lemma forEach_property_head:
  "convertedElements acc = e # xs \<Longrightarrow>
     \<exists>rest. convertedElements (forEach_property s ps acc) = e # rest"
  using forEach_property_appends [of s ps acc] by auto

lemma forEach_child_elements:
  "fst (forEach_child key pr cps acc) =
     fst acc @ map (\<lambda>(childKey, childProp). childElement key pr childKey childProp) cps"
  by (induction key pr cps acc rule: forEach_child.induct) auto

lemma convertProperty_object:
  assumes "type_s (keywords_of pr) = Some ''object''"
  shows "convertedElements (convertProperty s key pr acc) =
     convertedElements acc @
       [Element
          \<lparr>id_el = key, type = ''section'',
           label = or_else (title_s (keywords_of pr)) key,
           description = description_s (keywords_of pr),
           placeholder = None, required = None, options = None,
           isMultipleChoice = None, maxOptions = None\<rparr>
          (Some (map (\<lambda>(childKey, childProp). childElement key pr childKey childProp)
                   (case properties_s pr of Some cps \<Rightarrow> cps | None \<Rightarrow> [])))]"
proof -
  let ?cps = "case properties_s pr of Some cps \<Rightarrow> cps | None \<Rightarrow> []"
  let ?ds = "store_description key pr (descriptions acc)"
  obtain ce ls' ds' where r: "forEach_child key pr ?cps ([], labels acc, ?ds) = (ce, ls', ds')"
    by (cases "forEach_child key pr ?cps ([], labels acc, ?ds)") auto
  from forEach_child_elements [of key pr ?cps "([], labels acc, ?ds)"] r
  have ce: "ce = map (\<lambda>(childKey, childProp). childElement key pr childKey childProp) ?cps"
    by simp
  show ?thesis
    using assms r unfolding ce [symmetric]
    by (simp add: convertProperty_def Let_def)
qed

lemma forEach_property_object:
  assumes "(key, pr) \<in> set ps" and "type_s (keywords_of pr) = Some ''object''"
  shows "Element
          \<lparr>id_el = key, type = ''section'',
           label = or_else (title_s (keywords_of pr)) key,
           description = description_s (keywords_of pr),
           placeholder = None, required = None, options = None,
           isMultipleChoice = None, maxOptions = None\<rparr>
          (Some (map (\<lambda>(childKey, childProp). childElement key pr childKey childProp)
                   (case properties_s pr of Some cps \<Rightarrow> cps | None \<Rightarrow> [])))
         \<in> set (convertedElements (forEach_property s ps acc))"
  using assms(1)
proof (induction ps arbitrary: acc)
  case Nil
  then show ?case by simp
next
  case (Cons p ps)
  obtain k q where p: "p = (k, q)" by (cases p)
  show ?case
  proof (cases "(key, pr) = (k, q)")
    case True
    then show ?thesis
      using p convertProperty_object [OF assms(2), of s key acc]
      by (auto intro!: forEach_property_keeps)
  next
    case False
    with Cons.prems p have "(key, pr) \<in> set ps" by auto
    from Cons.IH [OF this, of "convertProperty s k q acc"] p show ?thesis by simp
  qed
qed

text \<open>
  C3, as the code has it. For every property stored under \<open>key\<close> whose type is
  \<open>object\<close>, the reverse conversion produces a section element with id \<open>key\<close> and label
  the property's title (or \<open>key\<close>), whose children are one element per nested property,
  in order and without recursion: the child's id is \<open>key\<close>, an underscore and the nested
  key; its type is \<open>checkbox\<close> when the nested type is \<open>boolean\<close> and \<open>text\<close> for
  every other nested type; its label is the nested title (or the nested key), its
  placeholder the nested \<open>example\<close> (or the empty string), and it is required when the
  object's \<open>required\<close> list names the nested key. A child never has options or children.
\<close>

theorem object_property_becomes_flat_section:
  assumes "properties_s s = Some ps"
    and "(key, pr) \<in> set ps"
    and "type_s (keywords_of pr) = Some ''object''"
  shows "Element
          \<lparr>id_el = key, type = ''section'',
           label = or_else (title_s (keywords_of pr)) key,
           description = description_s (keywords_of pr),
           placeholder = None, required = None, options = None,
           isMultipleChoice = None, maxOptions = None\<rparr>
          (Some (map (\<lambda>(childKey, childProp).
                        Element
                          \<lparr>id_el = key @ ''_'' @ childKey,
                           type = (if type_s (keywords_of childProp) = Some ''boolean''
                                   then ''checkbox'' else ''text''),
                           label = or_else (title_s (keywords_of childProp)) childKey,
                           description = description_s (keywords_of childProp),
                           placeholder = Some (or_else (example_s (keywords_of childProp)) []),
                           required = required_includes pr childKey,
                           options = None, isMultipleChoice = None, maxOptions = None\<rparr>
                          None)
                   (case properties_s pr of Some cps \<Rightarrow> cps | None \<Rightarrow> [])))
         \<in> set (convertedElements (convertJsonSchemaToElements s))"
  using forEach_property_object [OF assms(2) assms(3), of s] assms(1)
  by (simp add: convertJsonSchemaToElements_def Let_def childElement_def)

theorem object_property_becomes_flat_section_witness:
  "properties_s nested_count_schema = Some [(''addr'', count_schema)]
   \<and> (''addr'', count_schema) \<in> set [(''addr'', count_schema)]
   \<and> type_s (keywords_of count_schema) = Some ''object''
   \<and> Element (bare ''addr'' ''section'' ''addr'')
        (Some [Element ((bare ''addr_n'' ''text'' ''n'')\<lparr>placeholder := Some []\<rparr>) None])
       \<in> set (convertedElements (convertJsonSchemaToElements nested_count_schema))"
proof -
  have ps: "properties_s nested_count_schema = Some [(''addr'', count_schema)]"
    by (simp add: nested_count_schema_def)
  have mem: "(''addr'', count_schema) \<in> set [(''addr'', count_schema)]" by simp
  have ty: "type_s (keywords_of count_schema) = Some ''object''"
    by (simp add: count_schema_def no_keywords_def)
  from object_property_becomes_flat_section [OF ps mem ty] ps mem ty
  show ?thesis
    by (simp add: count_schema_def no_keywords_def bare_def or_else_def required_includes_def)
qed

text \<open>
  C3, as stated, fails: for the schema whose property \<open>addr\<close> is an object with the
  single nested property \<open>n\<close> of type \<open>number\<close>, the section's only child has id
  \<open>addr_n\<close> and type \<open>text\<close>, whereas the same nested properties converted by the
  top-level dispatch give an element with id \<open>n\<close> and type \<open>number\<close>.
\<close>

theorem nested_dispatch_counterexample:
  "convertedElements (convertJsonSchemaToElements nested_count_schema)
     = [Element (bare ''addr'' ''section'' ''addr'')
          (Some [Element ((bare ''addr_n'' ''text'' ''n'')\<lparr>placeholder := Some []\<rparr>) None])]
   \<and> convertedElements (convertJsonSchemaToElements count_schema)
       = [Element ((bare ''n'' ''number'' ''n'')\<lparr>placeholder := Some []\<rparr>) None]
   \<and> children (hd (convertedElements (convertJsonSchemaToElements nested_count_schema)))
       \<noteq> Some (convertedElements (convertJsonSchemaToElements count_schema))"
  by code_simp

text \<open>
  C6. Reverse conversion of the schema titled "Survey" with the single property \<open>color\<close>,
  a string with the enumeration Red, Blue, yields two elements: a \<open>title\<close> element
  labelled "Survey", then a \<open>select\<close> element with id \<open>color\<close>, the options Red and
  Blue, and \<open>isMultipleChoice = false\<close>.
\<close>

theorem reverse_survey:
  "convertedElements (convertJsonSchemaToElements survey_schema)
     = [Element ((bare ''title'' ''title'' ''Survey'')\<lparr>description := Some []\<rparr>) None,
        Element ((bare ''color'' ''select'' ''color'')
                   \<lparr>options := Some [''Red'', ''Blue''], isMultipleChoice := Some False\<rparr>) None]"
  by code_simp

text \<open>
  C10. Whenever the schema has a non-empty top-level title, the first converted element is
  the synthetic title element, and its id is the fixed string \<open>title\<close>. For the schema
  titled "Survey" that also has a string property keyed \<open>title\<close>, the result is two
  different elements that both have the id \<open>title\<close>, so the ids of the converted tree are
  not pairwise distinct.
\<close>

theorem reverse_title_id_collides:
  "(truthy (title_s (keywords_of s)) \<longrightarrow>
      (\<exists>rest. convertedElements (convertJsonSchemaToElements s)
         = Element
             \<lparr>id_el = ''title'', type = ''title'',
              label = or_else (title_s (keywords_of s)) [],
              description = Some (or_else (description_s (keywords_of s)) []),
              placeholder = None, required = None, options = None,
              isMultipleChoice = None, maxOptions = None\<rparr>
             None # rest))
   \<and> convertedElements (convertJsonSchemaToElements titled_schema)
       = [Element ((bare ''title'' ''title'' ''Survey'')\<lparr>description := Some []\<rparr>) None,
          Element ((bare ''title'' ''text'' ''title'')\<lparr>placeholder := Some []\<rparr>) None]
   \<and> \<not> distinct (allIds (convertedElements (convertJsonSchemaToElements titled_schema)))"
proof -
  have general: "truthy (title_s (keywords_of s)) \<Longrightarrow>
      \<exists>rest. convertedElements (convertJsonSchemaToElements s)
         = Element
             \<lparr>id_el = ''title'', type = ''title'',
              label = or_else (title_s (keywords_of s)) [],
              description = Some (or_else (description_s (keywords_of s)) []),
              placeholder = None, required = None, options = None,
              isMultipleChoice = None, maxOptions = None\<rparr>
             None # rest"
    by (cases "properties_s s")
       (auto simp: convertJsonSchemaToElements_def intro!: forEach_property_head)
  have run: "convertedElements (convertJsonSchemaToElements titled_schema)
       = [Element ((bare ''title'' ''title'' ''Survey'')\<lparr>description := Some []\<rparr>) None,
          Element ((bare ''title'' ''text'' ''title'')\<lparr>placeholder := Some []\<rparr>) None]"
    by code_simp
  have dup: "\<not> distinct (allIds (convertedElements (convertJsonSchemaToElements titled_schema)))"
    unfolding run by (simp add: allIds_def bare_def)
  from general run dup show ?thesis by blast
qed

theorem reverse_title_id_collides_witness:
  "truthy (title_s (keywords_of titled_schema))
   \<and> (\<exists>rest. convertedElements (convertJsonSchemaToElements titled_schema)
         = Element ((bare ''title'' ''title'' ''Survey'')\<lparr>description := Some []\<rparr>) None # rest)"
proof -
  have t: "truthy (title_s (keywords_of titled_schema))"
    by (simp add: titled_schema_def no_keywords_def truthy_def)
  from reverse_title_id_collides [of titled_schema] t
  show ?thesis
    by (simp add: titled_schema_def no_keywords_def bare_def or_else_def)
qed


end
